theory Spec2Isabelle
  imports Complex_Main "HOL-Library.Log_Nat"
begin

section \<open>JavaScript values and the runtime\<close>

subsection \<open>Numbers\<close>

text \<open>
  A JavaScript number is an IEEE 754 binary64 value: a finite value, NaN or one of the
  two infinities. A finite value is modelled as the rational it denotes; the two zeros
  are one value. Every arithmetic operation computes the exact result and rounds it to
  the nearest binary64 value, a tie going to the even significand (\<open>fl\<close>).
\<close>

datatype jsnum = Fin rat | NaN | PosInf | NegInf

definition isFinite :: "jsnum \<Rightarrow> bool" where
  "isFinite n = (case n of Fin _ \<Rightarrow> True | _ \<Rightarrow> False)"

definition signedInf :: "bool \<Rightarrow> jsnum" where
  "signedInf positive = (if positive then PosInf else NegInf)"

text \<open>The exponent of the binade of a positive rational: \<open>2\<^sup>k \<le> q < 2\<^sup>k\<^sup>+\<^sup>1\<close>.\<close>

definition floorLog2 :: "rat \<Rightarrow> int" where
  "floorLog2 q =
     (case quotient_of q of
        (n, d) \<Rightarrow> (let k = bitlen n - bitlen d in if 2 powi k \<le> q then k else k - 1))"

text \<open>The nearest integer, a tie going to the even one.\<close>

definition roundEven :: "rat \<Rightarrow> int" where
  "roundEven x =
     (let f = \<lfloor>x\<rfloor>; r = x - of_int f
      in if r < 1 / 2 then f else if 1 / 2 < r then f + 1 else if even f then f else f + 1)"

text \<open>
  Rounding to binary64: 53 significant bits, the least exponent of the unit in the last
  place being \<open>-1074\<close> (subnormal numbers), overflow to an infinity when the
  rounded value reaches \<open>2\<^sup>1\<^sup>0\<^sup>2\<^sup>4\<close>.
\<close>

definition fl :: "rat \<Rightarrow> jsnum" where
  "fl q =
     (if q = 0 then Fin 0
      else (let e = max (floorLog2 \<bar>q\<bar> - 52) (- 1074);
                r = of_int (roundEven (q / 2 powi e)) * 2 powi e
            in if r \<noteq> 0 \<and> 1024 \<le> floorLog2 \<bar>r\<bar> then signedInf (0 < q) else Fin r))"

text \<open>\<^verbatim>\<open>-a\<close>, \<^verbatim>\<open>a + b\<close>, \<^verbatim>\<open>a - b\<close>, \<^verbatim>\<open>a * b\<close>, \<^verbatim>\<open>a / b\<close>\<close>

fun jsNeg :: "jsnum \<Rightarrow> jsnum" where
  "jsNeg (Fin x) = Fin (- x)"
| "jsNeg NaN = NaN"
| "jsNeg PosInf = NegInf"
| "jsNeg NegInf = PosInf"

fun jsAdd :: "jsnum \<Rightarrow> jsnum \<Rightarrow> jsnum" where
  "jsAdd (Fin x) (Fin y) = fl (x + y)"
| "jsAdd NaN _ = NaN"
| "jsAdd _ NaN = NaN"
| "jsAdd PosInf NegInf = NaN"
| "jsAdd NegInf PosInf = NaN"
| "jsAdd PosInf _ = PosInf"
| "jsAdd _ PosInf = PosInf"
| "jsAdd NegInf _ = NegInf"
| "jsAdd _ NegInf = NegInf"

definition jsSub :: "jsnum \<Rightarrow> jsnum \<Rightarrow> jsnum" where
  "jsSub a b = jsAdd a (jsNeg b)"

fun jsMul :: "jsnum \<Rightarrow> jsnum \<Rightarrow> jsnum" where
  "jsMul (Fin x) (Fin y) = fl (x * y)"
| "jsMul NaN _ = NaN"
| "jsMul _ NaN = NaN"
| "jsMul (Fin x) PosInf = (if x = 0 then NaN else signedInf (0 < x))"
| "jsMul (Fin x) NegInf = (if x = 0 then NaN else signedInf (x < 0))"
| "jsMul PosInf (Fin y) = (if y = 0 then NaN else signedInf (0 < y))"
| "jsMul NegInf (Fin y) = (if y = 0 then NaN else signedInf (y < 0))"
| "jsMul PosInf PosInf = PosInf"
| "jsMul NegInf NegInf = PosInf"
| "jsMul PosInf NegInf = NegInf"
| "jsMul NegInf PosInf = NegInf"

text \<open>
  The program divides by the non-zero constants 100, 1000000 and \<open>10\<^sup>d\<close> only; a
  zero divisor is read as the positive zero.
\<close>

fun jsDiv :: "jsnum \<Rightarrow> jsnum \<Rightarrow> jsnum" where
  "jsDiv (Fin x) (Fin y) =
     (if y = 0 then (if x = 0 then NaN else signedInf (0 < x)) else fl (x / y))"
| "jsDiv NaN _ = NaN"
| "jsDiv _ NaN = NaN"
| "jsDiv (Fin x) _ = Fin 0"
| "jsDiv PosInf (Fin y) = signedInf (0 \<le> y)"
| "jsDiv NegInf (Fin y) = signedInf (y < 0)"
| "jsDiv _ _ = NaN"

text \<open>\<^verbatim>\<open>a < b\<close> and \<^verbatim>\<open>a <= b\<close>; \<^verbatim>\<open>a > b\<close> is \<open>jsLess b a\<close>.\<close>

fun jsLess :: "jsnum \<Rightarrow> jsnum \<Rightarrow> bool" where
  "jsLess (Fin x) (Fin y) = (x < y)"
| "jsLess NaN _ = False"
| "jsLess _ NaN = False"
| "jsLess NegInf NegInf = False"
| "jsLess NegInf _ = True"
| "jsLess _ NegInf = False"
| "jsLess PosInf _ = False"
| "jsLess _ PosInf = True"

definition jsLessEq :: "jsnum \<Rightarrow> jsnum \<Rightarrow> bool" where
  "jsLessEq a b = (jsLess a b \<or> (a = b \<and> a \<noteq> NaN))"

text \<open>\<^verbatim>\<open>Math.min\<close>, \<^verbatim>\<open>Math.max\<close>, \<^verbatim>\<open>Math.abs\<close>, \<^verbatim>\<open>Math.floor\<close>\<close>

definition jsMin :: "jsnum \<Rightarrow> jsnum \<Rightarrow> jsnum" where
  "jsMin a b = (if a = NaN \<or> b = NaN then NaN else if jsLess b a then b else a)"

definition jsMax :: "jsnum \<Rightarrow> jsnum \<Rightarrow> jsnum" where
  "jsMax a b = (if a = NaN \<or> b = NaN then NaN else if jsLess a b then b else a)"

definition jsAbs :: "jsnum \<Rightarrow> jsnum" where
  "jsAbs a = (case a of Fin x \<Rightarrow> Fin \<bar>x\<bar> | NaN \<Rightarrow> NaN | _ \<Rightarrow> PosInf)"

definition jsFloor :: "jsnum \<Rightarrow> jsnum" where
  "jsFloor a = (case a of Fin x \<Rightarrow> Fin (of_int \<lfloor>x\<rfloor>) | _ \<Rightarrow> a)"

text \<open>
  \<^verbatim>\<open>Math.pow(10, decimals)\<close> for the non-negative whole number of decimals the
  program passes.
\<close>

definition pow10 :: "nat \<Rightarrow> jsnum" where
  "pow10 decimals = fl (10 ^ decimals)"

text \<open>
  \<^verbatim>\<open>Number(x.toFixed(n))\<close>. Below \<open>10\<^sup>2\<^sup>1\<close>, \<^verbatim>\<open>toFixed\<close> prints the
  multiple of \<open>10\<^sup>-\<^sup>n\<close> nearest to the exact value of \<open>x\<close>, the larger one of two
  that are equally near, the sign apart; from \<open>10\<^sup>2\<^sup>1\<close> on it prints the number
  itself. \<^verbatim>\<open>Number\<close> reads the text back as the nearest binary64 value.
\<close>

definition toFixedNumber :: "nat \<Rightarrow> jsnum \<Rightarrow> jsnum" where
  "toFixedNumber n x =
     (case x of
        Fin q \<Rightarrow>
          if 10 ^ 21 \<le> \<bar>q\<bar> then Fin q
          else fl (sgn q * of_int \<lfloor>\<bar>q\<bar> * 10 ^ n + 1 / 2\<rfloor> / 10 ^ n)
      | _ \<Rightarrow> x)"

subsection \<open>Values\<close>

text \<open>
  What \<^verbatim>\<open>JSON.parse\<close> can return. \<^verbatim>\<open>undefined\<close> is the
  \<open>None\<close> of \<open>jsval option\<close>: a property an object does not have reads as
  \<^verbatim>\<open>undefined\<close>. An object is its property table.
\<close>

datatype jsval =
    JNull
  | JBool bool
  | JNum jsnum
  | JStr string
  | JArr "jsval list"
  | JObj "(string \<times> jsval) list"

type_synonym payload = "(string \<times> jsval) list"

text \<open>
  The built-in conversions of the language that the program calls and does not define:
  \<^verbatim>\<open>JSON.parse\<close> (\<open>None\<close> when it throws), \<^verbatim>\<open>Number(s)\<close> on a
  string, \<^verbatim>\<open>Number.parseFloat\<close>, \<^verbatim>\<open>String(n)\<close> on a number and
  \<^verbatim>\<open>Date.parse\<close> (\<open>None\<close> for NaN). They are a parameter of every function
  that calls them; the theorems that quantify over the runtime hold for every such
  runtime.
\<close>

record runtime =
  jsonParse :: "string \<Rightarrow> jsval option"
  stringToNumber :: "string \<Rightarrow> jsnum"
  parseFloat :: "string \<Rightarrow> jsnum"
  numberToString :: "jsnum \<Rightarrow> string"
  dateParse :: "string \<Rightarrow> int option"

text \<open>Truthiness, as \<^verbatim>\<open>raw || ''\<close> and \<^verbatim>\<open>!payload\<close> test it.\<close>

fun truthy :: "jsval \<Rightarrow> bool" where
  "truthy JNull = False"
| "truthy (JBool b) = b"
| "truthy (JNum n) = (n \<noteq> Fin 0 \<and> n \<noteq> NaN)"
| "truthy (JStr s) = (s \<noteq> [])"
| "truthy (JArr _) = True"
| "truthy (JObj _) = True"

text \<open>
  \<^verbatim>\<open>String(v)\<close>. An array joins its elements with commas, a null element as
  the empty string; a plain object prints as \<^verbatim>\<open>[object Object]\<close>.
\<close>

fun joinComma :: "string list \<Rightarrow> string" where
  "joinComma [] = []"
| "joinComma [s] = s"
| "joinComma (s # t # ss) = s @ '','' @ joinComma (t # ss)"

fun toStringJS :: "runtime \<Rightarrow> jsval \<Rightarrow> string" where
  "toStringJS rt JNull = ''null''"
| "toStringJS rt (JBool b) = (if b then ''true'' else ''false'')"
| "toStringJS rt (JNum n) = numberToString rt n"
| "toStringJS rt (JStr s) = s"
| "toStringJS rt (JArr xs) =
     joinComma (map (\<lambda>x. if x = JNull then [] else toStringJS rt x) xs)"
| "toStringJS rt (JObj _) = ''[object Object]''"

text \<open>\<^verbatim>\<open>String(raw || '')\<close>\<close>

definition stringOrEmpty :: "runtime \<Rightarrow> jsval option \<Rightarrow> string" where
  "stringOrEmpty rt raw =
     (case raw of
        None \<Rightarrow> []
      | Some v \<Rightarrow> if truthy v then toStringJS rt v else [])"

text \<open>\<^verbatim>\<open>Number(raw)\<close>\<close>

definition toNumber :: "runtime \<Rightarrow> jsval option \<Rightarrow> jsnum" where
  "toNumber rt raw =
     (case raw of
        None \<Rightarrow> NaN
      | Some JNull \<Rightarrow> Fin 0
      | Some (JBool b) \<Rightarrow> Fin (if b then 1 else 0)
      | Some (JNum n) \<Rightarrow> n
      | Some (JStr s) \<Rightarrow> stringToNumber rt s
      | Some v \<Rightarrow> stringToNumber rt (toStringJS rt v))"

text \<open>
  Strings are lists of ASCII characters. \<^verbatim>\<open>trim\<close> removes white space and line
  terminators at both ends, \<^verbatim>\<open>toLowerCase\<close> maps A..Z to a..z.
\<close>

definition isWhiteSpace :: "char \<Rightarrow> bool" where
  "isWhiteSpace c = (of_char c \<in> {9, 10, 11, 12, 13, 32 :: nat})"

definition trim :: "string \<Rightarrow> string" where
  "trim s = rev (dropWhile isWhiteSpace (rev (dropWhile isWhiteSpace s)))"

definition lowerChar :: "char \<Rightarrow> char" where
  "lowerChar c =
     (let n = of_char c :: nat in if 65 \<le> n \<and> n \<le> 90 then char_of (n + 32) else c)"

definition toLowerCase :: "string \<Rightarrow> string" where
  "toLowerCase s = map lowerChar s"

section \<open>types.ts\<close>

datatype SignalDirection = BUY | SELL
datatype SignalToken = UP | DOWN

record RedisRuntimeConfig =
  host :: string
  port :: rat
  channel :: string
  password :: "string option"

record ResolvedMarket =
  sourceText :: string
  eventSlug :: string
  marketSlug :: string
  marketQuestion :: string
  upTokenId :: string
  downTokenId :: string
  redisConfigFromInstruction :: "RedisRuntimeConfig option"

record TradingSignal =
  sig_timestampMs :: jsnum
  sig_direction :: SignalDirection
  sig_token :: SignalToken
  sig_limitPrice :: jsnum
  sig_marketSlug :: string
  sig_raw :: payload

record MarketUpdate =
  upd_timestampMs :: jsnum
  upd_marketSlug :: string
  upd_raw :: payload

datatype ParsedRedisMessage = Signal TradingSignal | Market MarketUpdate

text \<open>Every \<^verbatim>\<open>throw\<close> of the program, as a value.\<close>

datatype error =
    NotValidJson
  | NotJsonObject
  | InvalidDirection
  | InvalidToken
  | InvalidTimestamp
  | InvalidPrice
  | PriceNotInUnitInterval
  | MissingMarketSlug
  | InvalidMarketSlug
  | NoActiveMarket
  | MarketMismatch
  | ClientError string
  | TradeFailed string

section \<open>config.ts\<close>

record AppConfig =
  redisHost :: string
  redisPort :: rat
  redisChannel :: string
  redisPassword :: "string option"
  signalMaxAgeMs :: jsnum
  sharesPerTrade :: jsnum

definition HARD_CODED_SIGNAL_MAX_AGE_MS :: jsnum where
  "HARD_CODED_SIGNAL_MAX_AGE_MS = Fin 1000"

section \<open>tradeExecutor.ts\<close>

definition SELL_SAFETY_BUFFER_SHARES :: jsnum where
  "SELL_SAFETY_BUFFER_SHARES = fl (5 / 10)"

definition SELL_SIZE_DECIMALS :: nat where
  "SELL_SIZE_DECIMALS = 1"

subsection \<open>The exchange client\<close>

datatype Side = Side_BUY | Side_SELL
datatype OrderType = GTC | FOK | GTD | FAK

record UserOrder =
  tokenID :: string
  side :: Side
  price :: jsnum
  ord_size :: jsnum
  expiration :: nat
  feeRateBps :: nat

type_synonym SignedOrder = string

text \<open>
  The client is the outside world: each method answers with a value or throws
  (\<open>Inl\<close>, with the message). The two balance methods may be absent
  (\<^verbatim>\<open>typeof ... !== 'function'\<close>). A balance answer is the
  \<^verbatim>\<open>balance\<close> property of the response, a post answer its
  \<^verbatim>\<open>orderID\<close> property.
\<close>

record ClobClient =
  getBalanceAllowance :: "(string \<Rightarrow> string + jsval option) option"
  updateBalanceAllowance :: "(string \<Rightarrow> string + unit) option"
  createOrder :: "UserOrder \<Rightarrow> string + SignedOrder"
  postOrder :: "SignedOrder \<Rightarrow> OrderType \<Rightarrow> string + jsval option"

text \<open>The calls a function made on the client, in order.\<close>

datatype ClientCall =
    UpdateBalanceAllowance string
  | GetBalanceAllowance string
  | CreateOrder UserOrder
  | PostOrder SignedOrder OrderType

record TradeExecutor =
  market :: "ResolvedMarket option"
  sentCount :: nat
  failedCount :: nat
  lastTradeAtMs :: "int option"
  lastOrderId :: "string option"
  lastTradeSummary :: string
  knownShares :: "SignalToken \<Rightarrow> jsnum"

definition newTradeExecutor :: TradeExecutor where
  "newTradeExecutor =
     \<lparr> market = None, sentCount = 0, failedCount = 0, lastTradeAtMs = None,
       lastOrderId = None, lastTradeSummary = ''none'', knownShares = (\<lambda>_. Fin 0) \<rparr>"

definition updateMarket :: "ResolvedMarket \<Rightarrow> TradeExecutor \<Rightarrow> TradeExecutor" where
  "updateMarket m st =
     (let changed =
            (case market st of
               None \<Rightarrow> True
             | Some cur \<Rightarrow>
                 marketSlug cur \<noteq> marketSlug m \<or> upTokenId cur \<noteq> upTokenId m
                 \<or> downTokenId cur \<noteq> downTokenId m);
          st1 = st\<lparr>market := Some m\<rparr>
      in if changed then st1\<lparr>knownShares := (\<lambda>_. Fin 0)\<rparr> else st1)"

definition mapTokenToId :: "TradeExecutor \<Rightarrow> SignalToken \<Rightarrow> error + string" where
  "mapTokenToId st tok =
     (case market st of
        None \<Rightarrow> Inl NoActiveMarket
      | Some m \<Rightarrow> Inr (if tok = UP then upTokenId m else downTokenId m))"

definition mapDirection :: "SignalDirection \<Rightarrow> Side" where
  "mapDirection d = (if d = BUY then Side_BUY else Side_SELL)"

text \<open>
  \<^verbatim>\<open>text.replace(/^['"]|['"]$/g, '')\<close>: one quote character is removed at the
  start and one at the end of what is left.
\<close>

definition isQuote :: "char \<Rightarrow> bool" where
  "isQuote c = (c = CHR 0x27 \<or> c = CHR 0x22)"

definition stripQuotes :: "string \<Rightarrow> string" where
  "stripQuotes s =
     (let s1 = (if s \<noteq> [] \<and> isQuote (hd s) then tl s else s)
      in if s1 \<noteq> [] \<and> isQuote (last s1) then butlast s1 else s1)"

definition parseMaybeFixed6 :: "runtime \<Rightarrow> jsval option \<Rightarrow> jsnum" where
  "parseMaybeFixed6 rt v =
     (case v of
        None \<Rightarrow> Fin 0
      | Some JNull \<Rightarrow> Fin 0
      | Some w \<Rightarrow>
          (let text = stripQuotes (trim (toStringJS rt w))
           in if text = [] then Fin 0
              else if CHR ''.'' \<in> set text then
                (let parsedFloat = parseFloat rt text
                 in if isFinite parsedFloat then parsedFloat else Fin 0)
              else
                (let parsedNumber = stringToNumber rt text
                 in if \<not> isFinite parsedNumber then Fin 0
                    else if jsLessEq (Fin 100000) (jsAbs parsedNumber)
                      then jsDiv parsedNumber (Fin 1000000)
                    else parsedNumber)))"

definition roundDown :: "jsnum \<Rightarrow> nat \<Rightarrow> jsnum" where
  "roundDown v decimals =
     (let factor = pow10 decimals in jsDiv (jsFloor (jsMul v factor)) factor)"

text \<open>
  \<^verbatim>\<open>syncConditionalBalance\<close> returns the balance it settles on, the executor
  (whose ledger entry it may have overwritten) and the client calls it made. A call that
  throws lands in the \<^verbatim>\<open>catch\<close>, which returns the cached entry.
\<close>

definition storeBalance :: "SignalToken \<Rightarrow> jsnum \<Rightarrow> TradeExecutor \<Rightarrow> TradeExecutor" where
  "storeBalance tok balance st =
     (if isFinite balance \<and> jsLessEq (Fin 0) balance
      then st\<lparr>knownShares := (knownShares st)(tok := balance)\<rparr>
      else st)"

definition fetchBalance ::
  "runtime \<Rightarrow> (string \<Rightarrow> string + jsval option) \<Rightarrow> SignalToken \<Rightarrow> string \<Rightarrow> TradeExecutor
     \<Rightarrow> ClientCall list \<Rightarrow> jsnum \<times> TradeExecutor \<times> ClientCall list" where
  "fetchBalance rt getB tok tokenId st calls =
     (case getB tokenId of
        Inl msg \<Rightarrow> (knownShares st tok, st, calls @ [GetBalanceAllowance tokenId])
      | Inr response \<Rightarrow>
          (let balance = parseMaybeFixed6 rt response;
               st1 = storeBalance tok balance st
           in (knownShares st1 tok, st1, calls @ [GetBalanceAllowance tokenId])))"

definition syncConditionalBalance ::
  "runtime \<Rightarrow> ClobClient \<Rightarrow> SignalToken \<Rightarrow> string \<Rightarrow> TradeExecutor
     \<Rightarrow> jsnum \<times> TradeExecutor \<times> ClientCall list" where
  "syncConditionalBalance rt client tok tokenId st =
     (case getBalanceAllowance client of
        None \<Rightarrow> (knownShares st tok, st, [])
      | Some getB \<Rightarrow>
          (case updateBalanceAllowance client of
             None \<Rightarrow> fetchBalance rt getB tok tokenId st []
           | Some upd \<Rightarrow>
               (case upd tokenId of
                  Inl msg \<Rightarrow> (knownShares st tok, st, [UpdateBalanceAllowance tokenId])
                | Inr _ \<Rightarrow>
                    fetchBalance rt getB tok tokenId st [UpdateBalanceAllowance tokenId])))"

definition computeOrderSize ::
  "runtime \<Rightarrow> AppConfig \<Rightarrow> ClobClient \<Rightarrow> TradingSignal \<Rightarrow> string \<Rightarrow> TradeExecutor
     \<Rightarrow> jsnum \<times> TradeExecutor \<times> ClientCall list" where
  "computeOrderSize rt cfg client signal tokenId st =
     (if sig_direction signal = BUY then (sharesPerTrade cfg, st, [])
      else
        (case syncConditionalBalance rt client (sig_token signal) tokenId st of
           (availableShares, st1, calls) \<Rightarrow>
             (let tradeCap = jsMin (sharesPerTrade cfg) availableShares;
                  buffered = jsSub tradeCap SELL_SAFETY_BUFFER_SHARES;
                  roundedDown = roundDown buffered SELL_SIZE_DECIMALS
              in (toFixedNumber SELL_SIZE_DECIMALS roundedDown, st1, calls))))"

text \<open>The texts of the template literals.\<close>

definition directionText :: "SignalDirection \<Rightarrow> string" where
  "directionText d = (if d = BUY then ''BUY'' else ''SELL'')"

definition tokenText :: "SignalToken \<Rightarrow> string" where
  "tokenText t = (if t = UP then ''UP'' else ''DOWN'')"

definition skippedSummary :: "runtime \<Rightarrow> TradingSignal \<Rightarrow> string" where
  "skippedSummary rt signal =
     ''SKIPPED '' @ directionText (sig_direction signal) @ '' '' @ tokenText (sig_token signal)
     @ '' (insufficient shares after -'' @ numberToString rt SELL_SAFETY_BUFFER_SHARES
     @ '' buffer)''"

definition tradeSummary :: "runtime \<Rightarrow> TradingSignal \<Rightarrow> jsnum \<Rightarrow> jsnum \<Rightarrow> string" where
  "tradeSummary rt signal pr sz =
     directionText (sig_direction signal) @ '' '' @ tokenText (sig_token signal) @ '' @ ''
     @ numberToString rt pr @ '' x '' @ numberToString rt sz"

definition orderIdOf :: "runtime \<Rightarrow> jsval option \<Rightarrow> string" where
  "orderIdOf rt response =
     (case response of
        None \<Rightarrow> ''n/a''
      | Some v \<Rightarrow> if truthy v then toStringJS rt v else ''n/a'')"

text \<open>
  The two outcomes of \<^verbatim>\<open>postOrder\<close>: the body of the \<^verbatim>\<open>try\<close> after
  the call returned, and the \<^verbatim>\<open>catch\<close>.
\<close>

definition orderSent ::
  "runtime \<Rightarrow> int \<Rightarrow> TradingSignal \<Rightarrow> jsnum \<Rightarrow> jsnum \<Rightarrow> jsval option \<Rightarrow> TradeExecutor
     \<Rightarrow> TradeExecutor" where
  "orderSent rt now signal pr sz response st =
     (let tok = sig_token signal;
          known = knownShares st tok
      in st\<lparr> sentCount := sentCount st + 1,
              lastTradeAtMs := Some now,
              lastOrderId := Some (orderIdOf rt response),
              lastTradeSummary := tradeSummary rt signal pr sz,
              knownShares := (knownShares st)
                (tok := (if sig_direction signal = BUY
                         then toFixedNumber 6 (jsAdd known sz)
                         else jsMax (Fin 0) (toFixedNumber 6 (jsSub known sz)))) \<rparr>)"

definition orderFailed ::
  "runtime \<Rightarrow> int \<Rightarrow> TradingSignal \<Rightarrow> jsnum \<Rightarrow> jsnum \<Rightarrow> TradeExecutor \<Rightarrow> TradeExecutor" where
  "orderFailed rt now signal pr sz st =
     st\<lparr> failedCount := failedCount st + 1,
          lastTradeAtMs := Some now,
          lastTradeSummary := ''FAILED '' @ tradeSummary rt signal pr sz \<rparr>"

text \<open>
  \<^verbatim>\<open>execute\<close> returns its outcome (\<open>Inl\<close> the error it throws), the executor
  after the call and the client calls made, in order. \<open>now\<close> is the reading of
  \<^verbatim>\<open>Date.now()\<close> on the path taken. The notional and the warning about a
  notional below 1 only reach a log line and are left out.
\<close>

definition execute ::
  "runtime \<Rightarrow> AppConfig \<Rightarrow> ClobClient \<Rightarrow> int \<Rightarrow> TradingSignal \<Rightarrow> TradeExecutor
     \<Rightarrow> (error + unit) \<times> TradeExecutor \<times> ClientCall list" where
  "execute rt cfg client now signal st =
     (case market st of
        None \<Rightarrow> (Inl NoActiveMarket, st, [])
      | Some m \<Rightarrow>
          if sig_marketSlug signal \<noteq> marketSlug m then (Inl MarketMismatch, st, [])
          else
            (case mapTokenToId st (sig_token signal) of
               Inl e \<Rightarrow> (Inl e, st, [])
             | Inr tokenId \<Rightarrow>
                 (case computeOrderSize rt cfg client signal tokenId st of
                    (sz, st1, calls) \<Rightarrow>
                      (let pr = toFixedNumber 2
                                  (jsMin (fl (99 / 100))
                                     (jsMax (fl (1 / 100)) (sig_limitPrice signal)))
                       in if jsLessEq sz (Fin 0) then
                            (Inr (),
                             st1\<lparr>lastTradeAtMs := Some now,
                                 lastTradeSummary := skippedSummary rt signal\<rparr>,
                             calls)
                          else
                            (let order = \<lparr> tokenID = tokenId,
                                           side = mapDirection (sig_direction signal),
                                           price = pr, ord_size = sz, expiration = 0,
                                           feeRateBps = 1000 \<rparr>
                             in case createOrder client order of
                                  Inl msg \<Rightarrow> (Inl (ClientError msg), st1, calls @ [CreateOrder order])
                                | Inr signedOrder \<Rightarrow>
                                    (case postOrder client signedOrder FOK of
                                       Inr response \<Rightarrow>
                                         (Inr (), orderSent rt now signal pr sz response st1,
                                          calls @ [CreateOrder order, PostOrder signedOrder FOK])
                                     | Inl msg \<Rightarrow>
                                         (Inl (TradeFailed msg),
                                          orderFailed rt now signal pr sz st1,
                                          calls @ [CreateOrder order,
                                                   PostOrder signedOrder FOK])))))))"

text \<open>An order reaches the exchange through \<^verbatim>\<open>createOrder\<close> and \<^verbatim>\<open>postOrder\<close>.\<close>

fun isOrderCall :: "ClientCall \<Rightarrow> bool" where
  "isOrderCall (CreateOrder _) = True"
| "isOrderCall (PostOrder _ _) = True"
| "isOrderCall _ = False"

section \<open>signalParser.ts\<close>

definition normalizeDirection :: "runtime \<Rightarrow> jsval option \<Rightarrow> error + SignalDirection" where
  "normalizeDirection rt raw =
     (let v = toLowerCase (trim (stringOrEmpty rt raw))
      in if v = ''buy'' \<or> v = ''b'' then Inr BUY
         else if v = ''sell'' \<or> v = ''s'' then Inr SELL
         else Inl InvalidDirection)"

definition normalizeToken :: "runtime \<Rightarrow> jsval option \<Rightarrow> error + SignalToken" where
  "normalizeToken rt raw =
     (let v = toLowerCase (trim (stringOrEmpty rt raw))
      in if v = ''up'' \<or> v = ''yes'' \<or> v = ''long'' \<or> v = ''1'' then Inr UP
         else if v = ''down'' \<or> v = ''no'' \<or> v = ''short'' \<or> v = ''0'' then Inr DOWN
         else Inl InvalidToken)"

text \<open>\<^verbatim>\<open>raw < 1e12 ? Math.floor(raw * 1000) : Math.floor(raw)\<close>\<close>

definition scaleTimestamp :: "jsnum \<Rightarrow> jsnum" where
  "scaleTimestamp x =
     (if jsLess x (Fin (10 ^ 12)) then jsFloor (jsMul x (Fin 1000)) else jsFloor x)"

definition normalizeTimestamp :: "runtime \<Rightarrow> jsval option \<Rightarrow> error + jsnum" where
  "normalizeTimestamp rt raw =
     (case raw of
        Some (JNum n) \<Rightarrow> if isFinite n then Inr (scaleTimestamp n) else Inl InvalidTimestamp
      | Some (JStr s) \<Rightarrow>
          (let asNumber = stringToNumber rt s
           in if isFinite asNumber then Inr (scaleTimestamp asNumber)
              else
                (case dateParse rt s of
                   Some parsedDate \<Rightarrow> Inr (Fin (of_int parsedDate))
                 | None \<Rightarrow> Inl InvalidTimestamp))
      | _ \<Rightarrow> Inl InvalidTimestamp)"

definition normalizePrice :: "runtime \<Rightarrow> jsval option \<Rightarrow> error + jsnum" where
  "normalizePrice rt raw =
     (let v = toNumber rt raw
      in if \<not> isFinite v then Inl InvalidPrice
         else
           (let price = (if jsLess (Fin 1) v then jsDiv v (Fin 100) else v)
            in if jsLessEq price (Fin 0) \<or> jsLessEq (Fin 1) price
               then Inl PriceNotInUnitInterval
               else Inr (toFixedNumber 4 price)))"

text \<open>The characters of \<^verbatim>\<open>/^[a-z0-9-]{6,}$/\<close>.\<close>

definition isSlugChar :: "char \<Rightarrow> bool" where
  "isSlugChar c =
     (let n = of_char c :: nat
      in (97 \<le> n \<and> n \<le> 122) \<or> (48 \<le> n \<and> n \<le> 57) \<or> n = 45)"

definition normalizeMarketSlug :: "runtime \<Rightarrow> jsval option \<Rightarrow> error + string" where
  "normalizeMarketSlug rt raw =
     (let v = toLowerCase (trim (stringOrEmpty rt raw))
      in if v = [] then Inl MissingMarketSlug
         else if \<not> (6 \<le> length v \<and> list_all isSlugChar v) then Inl InvalidMarketSlug
         else Inr v)"

definition extractObject :: "runtime \<Rightarrow> string \<Rightarrow> error + payload" where
  "extractObject rt rawMessage =
     (case jsonParse rt rawMessage of
        None \<Rightarrow> Inl NotValidJson
      | Some (JObj p) \<Rightarrow> Inr p
      | Some _ \<Rightarrow> Inl NotJsonObject)"

text \<open>
  \<^verbatim>\<open>payload.a ?? payload.b ?? payload.c\<close>: the first property that is neither
  undefined nor null, and the last one as it is when all before it are.
\<close>

fun coalesce :: "payload \<Rightarrow> string list \<Rightarrow> jsval option" where
  "coalesce p [] = None"
| "coalesce p [k] = map_of p k"
| "coalesce p (k # k' # ks) =
     (case map_of p k of
        None \<Rightarrow> coalesce p (k' # ks)
      | Some JNull \<Rightarrow> coalesce p (k' # ks)
      | Some v \<Rightarrow> Some v)"

text \<open>\<^verbatim>\<open>payload.a !== undefined || payload.b !== undefined || ...\<close>\<close>

definition defined :: "payload \<Rightarrow> string list \<Rightarrow> bool" where
  "defined p keys = list_ex (\<lambda>k. map_of p k \<noteq> None) keys"

definition parseSignalPayload :: "runtime \<Rightarrow> payload \<Rightarrow> error + TradingSignal" where
  "parseSignalPayload rt p =
     (let timestamp = coalesce p [''timestamp'', ''ts'', ''time''];
          direction = coalesce p [''direction'', ''side'', ''orderSide'', ''action''];
          token = coalesce p [''token'', ''outcome'', ''marketSide'', ''position''];
          limitPrice = coalesce p [''limitPrice'', ''limit_price'', ''price''];
          marketSlug = coalesce p [''market_slug'', ''marketSlug'', ''slug'']
      in case normalizeTimestamp rt timestamp of
           Inl e \<Rightarrow> Inl e
         | Inr ts \<Rightarrow>
        (case normalizeDirection rt direction of
           Inl e \<Rightarrow> Inl e
         | Inr d \<Rightarrow>
        (case normalizeToken rt token of
           Inl e \<Rightarrow> Inl e
         | Inr t \<Rightarrow>
        (case normalizePrice rt limitPrice of
           Inl e \<Rightarrow> Inl e
         | Inr pr \<Rightarrow>
        (case normalizeMarketSlug rt marketSlug of
           Inl e \<Rightarrow> Inl e
         | Inr slug \<Rightarrow>
             Inr \<lparr> sig_timestampMs = ts, sig_direction = d, sig_token = t,
                   sig_limitPrice = pr, sig_marketSlug = slug, sig_raw = p \<rparr>)))))"

definition parseSignal :: "runtime \<Rightarrow> string \<Rightarrow> error + TradingSignal" where
  "parseSignal rt rawMessage =
     (case extractObject rt rawMessage of
        Inl e \<Rightarrow> Inl e
      | Inr p \<Rightarrow> parseSignalPayload rt p)"

text \<open>
  \<^verbatim>\<open>payload.timestamp ?? payload.ts ?? payload.time ?? Date.now()\<close>, \<open>now\<close>
  being the reading of \<^verbatim>\<open>Date.now()\<close>.
\<close>

definition timestampOrNow :: "int \<Rightarrow> payload \<Rightarrow> jsval option" where
  "timestampOrNow now p =
     (case coalesce p [''timestamp'', ''ts'', ''time''] of
        None \<Rightarrow> Some (JNum (Fin (of_int now)))
      | Some JNull \<Rightarrow> Some (JNum (Fin (of_int now)))
      | Some v \<Rightarrow> Some v)"

definition parseRedisMessage :: "runtime \<Rightarrow> int \<Rightarrow> string \<Rightarrow> error + ParsedRedisMessage" where
  "parseRedisMessage rt now rawMessage =
     (case extractObject rt rawMessage of
        Inl e \<Rightarrow> Inl e
      | Inr p \<Rightarrow>
          (let marketSlugRaw = coalesce p [''market_slug'', ''marketSlug'', ''slug''];
               timestampRaw = timestampOrNow now p;
               hasDirection = defined p [''direction'', ''side'', ''orderSide'', ''action''];
               hasToken = defined p [''token'', ''outcome'', ''marketSide'', ''position''];
               hasPrice = defined p [''limitPrice'', ''limit_price'', ''price'']
           in if \<not> hasDirection \<and> \<not> hasToken \<and> \<not> hasPrice then
                (case normalizeTimestamp rt timestampRaw of
                   Inl e \<Rightarrow> Inl e
                 | Inr ts \<Rightarrow>
                     (case normalizeMarketSlug rt marketSlugRaw of
                        Inl e \<Rightarrow> Inl e
                      | Inr slug \<Rightarrow>
                          Inr (Market \<lparr> upd_timestampMs = ts, upd_marketSlug = slug,
                                         upd_raw = p \<rparr>)))
              else
                (case parseSignalPayload rt p of
                   Inl e \<Rightarrow> Inl e
                 | Inr s \<Rightarrow> Inr (Signal s))))"

section \<open>signalSubscriber.ts\<close>

text \<open>
  A Redis connection is known by its identity, a number. The subscriber's promise queue
  hands it one message at a time; the model takes the messages one call at a time.
\<close>

record SignalSubscriber =
  redis :: "nat option"
  currentHost :: string
  currentPort :: rat
  currentChannel :: string
  currentPassword :: "string option"
  connected :: bool
  receivedCount :: nat
  staleCount :: nat
  processedCount :: nat
  sub_failedCount :: nat
  lastSignalAtMs :: "int option"
  lastSignalSummary :: string


subsection \<open>Connection and reconfiguration\<close>

datatype RedisStatus =
  StWait | StReconnecting | StConnecting | StConnect | StReady | StClose | StEnd

datatype RedisEvent = EvConnect | EvClose | EvError string

text \<open>The calls made on the Redis library, in order.\<close>

datatype RedisCall =
    NewRedis nat string rat "string option"
  | Subscribe nat string
  | Unsubscribe nat string
  | Disconnect nat

text \<open>
  What the outside does during one call: the identity of the connection
  \<^verbatim>\<open>new Redis\<close> creates, the events that connection emits while
  \<^verbatim>\<open>subscribe\<close> is awaited, how that \<^verbatim>\<open>subscribe\<close> settles, the
  status a connection shows when it is read, and how \<^verbatim>\<open>unsubscribe\<close> and
  \<^verbatim>\<open>subscribe\<close> on the existing connection settle. A promise settles by
  resolving (\<open>Some (Inr ())\<close>) or by rejecting (\<open>Some (Inl msg)\<close>), or it never
  settles (\<open>None\<close>): the connection is created with
  \<^verbatim>\<open>maxRetriesPerRequest: null\<close> and a retry strategy without an end, so a command
  sent to a server that cannot be reached waits for a connection without a deadline.
\<close>

record RedisWorld =
  newHandle :: nat
  connectEvents :: "RedisEvent list"
  subscribeResult :: "(string + unit) option"
  statusOf :: "nat \<Rightarrow> RedisStatus"
  unsubscribeResult :: "(string + unit) option"
  resubscribeResult :: "(string + unit) option"

text \<open>\<^verbatim>\<open>Partial<RedisRuntimeConfig>\<close>\<close>

record RedisTargetUpdate =
  next_host :: "string option"
  next_port :: "jsnum option"
  next_channel :: "string option"
  next_password :: "string option"

text \<open>
  The handlers of the connection in use: \<^verbatim>\<open>connect\<close> and \<^verbatim>\<open>close\<close> set
  the flag, \<^verbatim>\<open>error\<close> only logs. The handlers of a connection that is not the
  one in \<^verbatim>\<open>this.redis\<close> return at once.
\<close>

definition applyEvent :: "SignalSubscriber \<Rightarrow> RedisEvent \<Rightarrow> SignalSubscriber" where
  "applyEvent sub ev =
     (case ev of
        EvConnect \<Rightarrow> sub\<lparr>connected := True\<rparr>
      | EvClose \<Rightarrow> sub\<lparr>connected := False\<rparr>
      | EvError _ \<Rightarrow> sub)"

text \<open>
  \<^verbatim>\<open>connectAndSubscribe\<close> returns how its promise settles, the subscriber and
  the calls made. \<^verbatim>\<open>this.redis\<close> is assigned before \<^verbatim>\<open>subscribe\<close> is
  awaited, the four target fields after it resolved.
\<close>

definition connectAndSubscribe ::
  "RedisWorld \<Rightarrow> string \<Rightarrow> rat \<Rightarrow> string \<Rightarrow> string option \<Rightarrow> SignalSubscriber
     \<Rightarrow> (string + unit) option \<times> SignalSubscriber \<times> RedisCall list" where
  "connectAndSubscribe w h p c pw sub =
     (let r = newHandle w;
          sub1 = sub\<lparr>redis := Some r\<rparr>;
          sub2 = foldl applyEvent sub1 (connectEvents w);
          calls = [NewRedis r h p (if pw = Some [] then None else pw), Subscribe r c]
      in case subscribeResult w of
           None \<Rightarrow> (None, sub2, calls)
         | Some (Inl msg) \<Rightarrow> (Some (Inl msg), sub2, calls)
         | Some (Inr _) \<Rightarrow>
             (Some (Inr ()),
              sub2\<lparr>currentHost := h, currentPort := p, currentChannel := c,
                   currentPassword := pw\<rparr>,
              calls))"

definition start :: "RedisWorld \<Rightarrow> SignalSubscriber
     \<Rightarrow> (string + unit) option \<times> SignalSubscriber \<times> RedisCall list" where
  "start w sub =
     connectAndSubscribe w (currentHost sub) (currentPort sub) (currentChannel sub)
       (currentPassword sub) sub"

definition stop :: "SignalSubscriber \<Rightarrow> SignalSubscriber \<times> RedisCall list" where
  "stop sub =
     (case redis sub of
        Some r \<Rightarrow> (sub\<lparr>redis := None, connected := False\<rparr>, [Disconnect r])
      | None \<Rightarrow> (sub\<lparr>connected := False\<rparr>, []))"

text \<open>The effective target of a request: host, port, channel and password.\<close>

definition nextHost :: "RedisTargetUpdate \<Rightarrow> SignalSubscriber \<Rightarrow> string" where
  "nextHost next sub =
     trim (case next_host next of
             Some h \<Rightarrow> if h \<noteq> [] then h else currentHost sub
           | None \<Rightarrow> currentHost sub)"

definition nextPort :: "RedisTargetUpdate \<Rightarrow> SignalSubscriber \<Rightarrow> rat" where
  "nextPort next sub =
     (case next_port next of Some (Fin q) \<Rightarrow> q | _ \<Rightarrow> currentPort sub)"

definition nextChannel :: "RedisTargetUpdate \<Rightarrow> SignalSubscriber \<Rightarrow> string" where
  "nextChannel next sub =
     trim (case next_channel next of
             Some c \<Rightarrow> if c \<noteq> [] then c else currentChannel sub
           | None \<Rightarrow> currentChannel sub)"

definition nextPassword :: "RedisTargetUpdate \<Rightarrow> SignalSubscriber \<Rightarrow> string option" where
  "nextPassword next sub =
     (case next_password next of
        Some pw \<Rightarrow> if trim pw \<noteq> [] then Some pw else currentPassword sub
      | None \<Rightarrow> currentPassword sub)"

text \<open>
  The \<^verbatim>\<open>catch\<close> of a failed switch: the new connection is disconnected, the
  previous one is put back with the previous target, and the flag is read from the
  previous connection's status.
\<close>

definition switchFailed ::
  "RedisWorld \<Rightarrow> SignalSubscriber \<Rightarrow> SignalSubscriber \<Rightarrow> RedisCall list
     \<Rightarrow> SignalSubscriber \<times> RedisCall list" where
  "switchFailed w previous sub calls =
     (let calls1 = (case redis sub of
                      Some r \<Rightarrow> if redis sub \<noteq> redis previous then calls @ [Disconnect r] else calls
                    | None \<Rightarrow> calls);
          sub1 = sub\<lparr>redis := redis previous\<rparr>
      in case redis previous of
           Some previousRedis \<Rightarrow>
             (sub1\<lparr>currentHost := currentHost previous, currentPort := currentPort previous,
                   currentChannel := currentChannel previous,
                   currentPassword := currentPassword previous,
                   connected := (statusOf w previousRedis = StReady
                                 \<or> statusOf w previousRedis = StConnect)\<rparr>,
              calls1)
         | None \<Rightarrow> (sub1\<lparr>connected := False\<rparr>, calls1))"

text \<open>
  \<^verbatim>\<open>updateRedisTarget\<close> returns how its promise settles: it resolves
  (\<open>Some (Inr ())\<close>), rejects (\<open>Some (Inl msg)\<close>), which only the channel change on
  the existing connection can make it do, or never settles (\<open>None\<close>), when an awaited
  call never does.
\<close>

definition updateRedisTarget ::
  "RedisWorld \<Rightarrow> RedisTargetUpdate \<Rightarrow> SignalSubscriber
     \<Rightarrow> (string + unit) option \<times> SignalSubscriber \<times> RedisCall list" where
  "updateRedisTarget w next sub =
     (let h = nextHost next sub; p = nextPort next sub; c = nextChannel next sub;
          pw = nextPassword next sub
      in if h = [] \<or> c = [] \<or> p \<le> 0 then (Some (Inr ()), sub, [])
         else
           (let hostChanged = (h \<noteq> currentHost sub);
                portChanged = (p \<noteq> currentPort sub);
                channelChanged = (c \<noteq> currentChannel sub);
                passwordChanged = (pw \<noteq> currentPassword sub)
            in if \<not> hostChanged \<and> \<not> portChanged \<and> \<not> channelChanged \<and> \<not> passwordChanged
               then (Some (Inr ()), sub, [])
               else if hostChanged \<or> portChanged \<or> passwordChanged then
                 (case connectAndSubscribe w h p c pw sub of
                    (None, sub1, calls) \<Rightarrow> (None, sub1, calls)
                  | (Some (Inl msg), sub1, calls) \<Rightarrow>
                      (case switchFailed w sub sub1 calls of
                         (sub2, calls1) \<Rightarrow> (Some (Inr ()), sub2, calls1))
                  | (Some (Inr _), sub1, calls) \<Rightarrow>
                      (Some (Inr ()), sub1,
                       (case redis sub of
                          Some previousRedis \<Rightarrow>
                            if redis sub \<noteq> redis sub1 then calls @ [Disconnect previousRedis]
                            else calls
                        | None \<Rightarrow> calls)))
               else
                 (case redis sub of
                    Some r \<Rightarrow>
                      (case unsubscribeResult w of
                         None \<Rightarrow> (None, sub, [Unsubscribe r (currentChannel sub)])
                       | Some (Inl msg) \<Rightarrow>
                           (Some (Inl msg), sub, [Unsubscribe r (currentChannel sub)])
                       | Some (Inr _) \<Rightarrow>
                           (case resubscribeResult w of
                              None \<Rightarrow>
                                (None, sub, [Unsubscribe r (currentChannel sub), Subscribe r c])
                            | Some (Inl msg) \<Rightarrow>
                                (Some (Inl msg), sub,
                                 [Unsubscribe r (currentChannel sub), Subscribe r c])
                            | Some (Inr _) \<Rightarrow>
                                (Some (Inr ()), sub\<lparr>currentChannel := c\<rparr>,
                                 [Unsubscribe r (currentChannel sub), Subscribe r c])))
                  | None \<Rightarrow>
                      (Some (Inr ()),
                       sub\<lparr>currentHost := h, currentPort := p, currentChannel := c,
                           currentPassword := pw\<rparr>,
                       []))))"

subsection \<open>Message handling\<close>

datatype SlugSource = FromSignal | FromMarket

text \<open>
  The callback the subscriber is constructed with. It may rebind the executor's market,
  and it answers by returning, by throwing or never (\<open>None\<close>): the callback of
  \<^verbatim>\<open>index.ts\<close> retries the market resolution without a deadline.
\<close>

type_synonym MarketSlugCallback =
  "string \<Rightarrow> SlugSource \<Rightarrow> TradeExecutor \<Rightarrow> (error + unit) option \<times> TradeExecutor"

text \<open>The calls \<^verbatim>\<open>handleMessage\<close> made on the callback and the executor.\<close>

datatype SubscriberCall = OnMarketSlug string SlugSource | Execute TradingSignal

text \<open>The readings of \<^verbatim>\<open>Date.now()\<close> along one message.\<close>

record Clock =
  nowParse :: int
  nowSeen :: int
  nowAge :: int
  nowTrade :: int

definition signalSummary :: "runtime \<Rightarrow> TradingSignal \<Rightarrow> string" where
  "signalSummary rt signal =
     directionText (sig_direction signal) @ '' '' @ tokenText (sig_token signal) @ '' @ ''
     @ numberToString rt (sig_limitPrice signal) @ '' ['' @ sig_marketSlug signal @ '']''"

text \<open>The \<^verbatim>\<open>catch\<close> of \<^verbatim>\<open>handleMessage\<close> counts the failure and rethrows.\<close>

definition messageFailed :: "SignalSubscriber \<Rightarrow> SignalSubscriber" where
  "messageFailed sub = sub\<lparr>sub_failedCount := sub_failedCount sub + 1\<rparr>"

text \<open>
  \<^verbatim>\<open>handleMessage\<close> returns how its promise settles (\<open>None\<close>: never), the
  subscriber and the executor after the call, and the calls it made on the callback, the
  executor and, through the executor, the client.
\<close>

definition handleMessage ::
  "runtime \<Rightarrow> AppConfig \<Rightarrow> ClobClient \<Rightarrow> MarketSlugCallback \<Rightarrow> Clock \<Rightarrow> string
     \<Rightarrow> SignalSubscriber \<Rightarrow> TradeExecutor
     \<Rightarrow> (error + unit) option \<times> SignalSubscriber \<times> TradeExecutor
         \<times> SubscriberCall list \<times> ClientCall list" where
  "handleMessage rt cfg client onMarketSlug clk rawMessage sub ex =
     (let sub1 = sub\<lparr>receivedCount := receivedCount sub + 1\<rparr>
      in case parseRedisMessage rt (nowParse clk) rawMessage of
           Inl e \<Rightarrow> (Some (Inl e), messageFailed sub1, ex, [], [])
         | Inr (Market update) \<Rightarrow>
             (let sub2 = sub1\<lparr>lastSignalAtMs := Some (nowSeen clk),
                              lastSignalSummary := ''MARKET '' @ upd_marketSlug update\<rparr>;
                  called = [OnMarketSlug (upd_marketSlug update) FromMarket]
              in case onMarketSlug (upd_marketSlug update) FromMarket ex of
                   (None, ex1) \<Rightarrow> (None, sub2, ex1, called, [])
                 | (Some (Inl e), ex1) \<Rightarrow> (Some (Inl e), messageFailed sub2, ex1, called, [])
                 | (Some (Inr _), ex1) \<Rightarrow>
                     (Some (Inr ()), sub2\<lparr>processedCount := processedCount sub2 + 1\<rparr>, ex1,
                      called, []))
         | Inr (Signal signal) \<Rightarrow>
             (let sub2 = sub1\<lparr>lastSignalAtMs := Some (nowSeen clk),
                              lastSignalSummary := signalSummary rt signal\<rparr>;
                  ageMs = jsSub (Fin (of_int (nowAge clk))) (sig_timestampMs signal);
                  called = [OnMarketSlug (sig_marketSlug signal) FromSignal]
              in if jsLess (signalMaxAgeMs cfg) ageMs then
                   (let sub3 = sub2\<lparr>staleCount := staleCount sub2 + 1\<rparr>
                    in case onMarketSlug (sig_marketSlug signal) FromSignal ex of
                         (None, ex1) \<Rightarrow> (None, sub3, ex1, called, [])
                       | (Some (Inl e), ex1) \<Rightarrow>
                           (Some (Inl e), messageFailed sub3, ex1, called, [])
                       | (Some (Inr _), ex1) \<Rightarrow> (Some (Inr ()), sub3, ex1, called, []))
                 else
                   (case onMarketSlug (sig_marketSlug signal) FromSignal ex of
                      (None, ex1) \<Rightarrow> (None, sub2, ex1, called, [])
                    | (Some (Inl e), ex1) \<Rightarrow>
                        (Some (Inl e), messageFailed sub2, ex1, called, [])
                    | (Some (Inr _), ex1) \<Rightarrow>
                        (case execute rt cfg client (nowTrade clk) signal ex1 of
                           (Inl e, ex2, calls) \<Rightarrow>
                             (Some (Inl e), messageFailed sub2, ex2,
                              called @ [Execute signal], calls)
                         | (Inr _, ex2, calls) \<Rightarrow>
                             (Some (Inr ()),
                              sub2\<lparr>processedCount := processedCount sub2 + 1\<rparr>, ex2,
                              called @ [Execute signal], calls)))))"

text \<open>
  The \<^verbatim>\<open>message\<close> handler of connection \<open>r\<close>: a message of a connection
  that is not the one in \<^verbatim>\<open>this.redis\<close> is dropped (\<open>None\<close>), any other is
  handed to \<^verbatim>\<open>handleMessage\<close>.
\<close>

definition onMessage ::
  "runtime \<Rightarrow> AppConfig \<Rightarrow> ClobClient \<Rightarrow> MarketSlugCallback \<Rightarrow> Clock \<Rightarrow> nat \<Rightarrow> string
     \<Rightarrow> SignalSubscriber \<Rightarrow> TradeExecutor
     \<Rightarrow> ((error + unit) option \<times> SignalSubscriber \<times> TradeExecutor
          \<times> SubscriberCall list \<times> ClientCall list) option" where
  "onMessage rt cfg client onMarketSlug clk r rawMessage sub ex =
     (if redis sub \<noteq> Some r then None
      else Some (handleMessage rt cfg client onMarketSlug clk rawMessage sub ex))"

section \<open>The wording of the specification\<close>

text \<open>
  The names a field goes by in the wire format of the specification, and the alias
  values of a direction and of an outcome as its normalization rules list them.
\<close>

definition wireTimestampNames :: "string list" where
  "wireTimestampNames = [''timestamp'', ''ts'', ''time'']"

definition wireDirectionNames :: "string list" where
  "wireDirectionNames = [''direction'', ''side'', ''orderSide'', ''action'']"

definition wireTokenNames :: "string list" where
  "wireTokenNames = [''token'', ''outcome'', ''marketSide'', ''position'']"

definition wirePriceNames :: "string list" where
  "wirePriceNames = [''limitPrice'', ''limit_price'', ''price'']"

definition wireSlugNames :: "string list" where
  "wireSlugNames = [''market_slug'', ''marketSlug'', ''slug'']"

definition directionAliases :: "SignalDirection \<Rightarrow> string list" where
  "directionAliases d = (case d of BUY \<Rightarrow> [''buy'', ''b''] | SELL \<Rightarrow> [''sell'', ''s''])"

definition tokenAliases :: "SignalToken \<Rightarrow> string list" where
  "tokenAliases t =
     (case t of
        UP \<Rightarrow> [''up'', ''yes'', ''long'', ''1'']
      | DOWN \<Rightarrow> [''down'', ''no'', ''short'', ''0''])"

text \<open>
  The value a payload carries for a field: that of the one property among the field's
  names that is present and not null; nothing when there is no such property or more
  than one.
\<close>

definition carried :: "payload \<Rightarrow> string list \<Rightarrow> jsval option" where
  "carried p names =
     (case filter (\<lambda>v. v \<noteq> None \<and> v \<noteq> Some JNull) (map (map_of p) names) of
        [v] \<Rightarrow> v
      | _ \<Rightarrow> None)"

text \<open>
  A carried value is an alias when it is a string that reads, in any letter case and
  with or without white space around it, as one of the given texts.
\<close>

definition isAlias :: "string list \<Rightarrow> jsval option \<Rightarrow> bool" where
  "isAlias aliases raw =
     (case raw of Some (JStr s) \<Rightarrow> toLowerCase (trim s) \<in> set aliases | _ \<Rightarrow> False)"

text \<open>
  Two payloads differ only in the alias names and alias values they use when each
  carries all five fields, the timestamp, the price and the slug with the same value,
  and the direction and the outcome with aliases of one direction and of one outcome.
\<close>

definition aliasVariants :: "payload \<Rightarrow> payload \<Rightarrow> bool" where
  "aliasVariants p q \<longleftrightarrow>
     carried p wireTimestampNames \<noteq> None
     \<and> carried q wireTimestampNames = carried p wireTimestampNames
     \<and> carried p wirePriceNames \<noteq> None
     \<and> carried q wirePriceNames = carried p wirePriceNames
     \<and> carried p wireSlugNames \<noteq> None
     \<and> carried q wireSlugNames = carried p wireSlugNames
     \<and> (isAlias (directionAliases BUY) (carried p wireDirectionNames)
          \<and> isAlias (directionAliases BUY) (carried q wireDirectionNames)
         \<or> isAlias (directionAliases SELL) (carried p wireDirectionNames)
          \<and> isAlias (directionAliases SELL) (carried q wireDirectionNames))
     \<and> (isAlias (tokenAliases UP) (carried p wireTokenNames)
          \<and> isAlias (tokenAliases UP) (carried q wireTokenNames)
         \<or> isAlias (tokenAliases DOWN) (carried p wireTokenNames)
          \<and> isAlias (tokenAliases DOWN) (carried q wireTokenNames))"

text \<open>
  The SELL size of the specification, over the decimal values it is written with:
  \<open>floor((min(sharesPerTrade, balance) - 0.5) * 10) / 10\<close>.
\<close>

definition specSellSize :: "rat \<Rightarrow> rat \<Rightarrow> rat" where
  "specSellSize perTrade balance = of_int \<lfloor>(min perTrade balance - 5 / 10) * 10\<rfloor> / 10"

section \<open>Example values\<close>

definition exMarketA :: ResolvedMarket where
  "exMarketA =
     \<lparr> sourceText = ''btc-updown-15m-1700000000'', eventSlug = ''btc-updown-15m-1700000000'',
       marketSlug = ''btc-updown-15m-1700000000'', marketQuestion = ''Bitcoin up or down?'',
       upTokenId = ''1001'', downTokenId = ''1002'', redisConfigFromInstruction = None \<rparr>"

definition exMarketB :: ResolvedMarket where
  "exMarketB =
     \<lparr> sourceText = ''btc-updown-15m-1700000900'', eventSlug = ''btc-updown-15m-1700000900'',
       marketSlug = ''btc-updown-15m-1700000900'', marketQuestion = ''Bitcoin up or down?'',
       upTokenId = ''2001'', downTokenId = ''2002'', redisConfigFromInstruction = None \<rparr>"

text \<open>An executor bound to market A that holds 3.2 and 7 shares of the two outcomes.\<close>

definition exExecutorA :: TradeExecutor where
  "exExecutorA =
     \<lparr> market = Some exMarketA, sentCount = 2, failedCount = 0, lastTradeAtMs = None,
       lastOrderId = None, lastTradeSummary = ''none'',
       knownShares = (\<lambda>t. if t = UP then fl (32 / 10) else Fin 7) \<rparr>"

text \<open>
  A runtime for the examples. \<^verbatim>\<open>Number.parseFloat\<close> skips leading white space
  and reads the longest prefix that is a decimal literal (a sign, digits with an optional
  fraction, an exponent) or \<^verbatim>\<open>Infinity\<close>, and is NaN when there is none;
  \<^verbatim>\<open>Number\<close> trims the text, reads the empty text as 0 and any other text as
  the decimal literal it is as a whole, and is NaN otherwise. Both round the value read
  to binary64. Literals in another base and date formats are not covered.
  \<^verbatim>\<open>String\<close> prints a number between \<open>10\<^sup>-\<^sup>6\<close> and \<open>10\<^sup>2\<^sup>1\<close> with the
  fewest decimals that read back as the same number.
\<close>

definition digitOf :: "char \<Rightarrow> int option" where
  "digitOf c = (let n = of_char c :: int in if 48 \<le> n \<and> n \<le> 57 then Some (n - 48) else None)"

definition isDigit :: "char \<Rightarrow> bool" where
  "isDigit c = (digitOf c \<noteq> None)"

fun digitsValue :: "int \<Rightarrow> string \<Rightarrow> int" where
  "digitsValue acc [] = acc"
| "digitsValue acc (c # cs) =
     (case digitOf c of None \<Rightarrow> acc | Some d \<Rightarrow> digitsValue (10 * acc + d) cs)"

text \<open>An exponent part at the start of the text, and the text after it.\<close>

definition scanExponent :: "string \<Rightarrow> int \<times> string" where
  "scanExponent s =
     (if s \<noteq> [] \<and> (hd s = CHR ''e'' \<or> hd s = CHR ''E'') then
        (let r = tl s;
             negative = (r \<noteq> [] \<and> hd r = CHR ''-'');
             body = (if r \<noteq> [] \<and> (hd r = CHR ''-'' \<or> hd r = CHR ''+'') then tl r else r);
             digits = takeWhile isDigit body
         in if digits = [] then (0, s)
            else ((if negative then - 1 else 1) * digitsValue 0 digits, dropWhile isDigit body))
      else (0, s))"

text \<open>An unsigned decimal literal at the start of the text, and the text after it.\<close>

definition scanDecimal :: "string \<Rightarrow> (rat \<times> string) option" where
  "scanDecimal s =
     (let whole = takeWhile isDigit s;
          r1 = dropWhile isDigit s;
          hasDot = (r1 \<noteq> [] \<and> hd r1 = CHR ''.'');
          fraction = (if hasDot then takeWhile isDigit (tl r1) else []);
          r2 = (if hasDot then dropWhile isDigit (tl r1) else r1)
      in if whole = [] \<and> fraction = [] then None
         else
           (case scanExponent r2 of
              (ex, r3) \<Rightarrow>
                Some ((of_int (digitsValue 0 whole)
                       + of_int (digitsValue 0 fraction) / 10 ^ length fraction)
                      * 10 powi ex, r3)))"

definition scanNumber :: "string \<Rightarrow> (jsnum \<times> string) option" where
  "scanNumber s =
     (let negative = (s \<noteq> [] \<and> hd s = CHR ''-'');
          body = (if s \<noteq> [] \<and> (hd s = CHR ''-'' \<or> hd s = CHR ''+'') then tl s else s)
      in if take 8 body = ''Infinity'' then Some (signedInf (\<not> negative), drop 8 body)
         else
           (case scanDecimal body of
              None \<Rightarrow> None
            | Some (q, rest) \<Rightarrow> Some (fl (if negative then - q else q), rest)))"

definition exParseFloat :: "string \<Rightarrow> jsnum" where
  "exParseFloat s =
     (case scanNumber (dropWhile isWhiteSpace s) of Some (n, _) \<Rightarrow> n | None \<Rightarrow> NaN)"

definition exStringToNumber :: "string \<Rightarrow> jsnum" where
  "exStringToNumber s =
     (let t = trim s
      in if t = [] then Fin 0
         else (case scanNumber t of Some (n, []) \<Rightarrow> n | _ \<Rightarrow> NaN))"

definition nearestDecimal :: "nat \<Rightarrow> rat \<Rightarrow> rat" where
  "nearestDecimal k q = of_int \<lfloor>q * 10 ^ k + 1 / 2\<rfloor> / 10 ^ k"

fun shortestDecimal :: "nat \<Rightarrow> nat \<Rightarrow> rat \<Rightarrow> rat" where
  "shortestDecimal 0 k q = q"
| "shortestDecimal (Suc fuel) k q =
     (if fl (nearestDecimal k q) = Fin q then nearestDecimal k q
      else shortestDecimal fuel (Suc k) q)"

fun showFraction :: "nat \<Rightarrow> rat \<Rightarrow> string" where
  "showFraction 0 q = []"
| "showFraction (Suc k) q =
     (if q = 0 then []
      else (let d = \<lfloor>q * 10\<rfloor>
            in char_of (48 + d) # showFraction k (q * 10 - of_int d)))"

fun showWhole :: "nat \<Rightarrow> int \<Rightarrow> string" where
  "showWhole 0 n = []"
| "showWhole (Suc k) n =
     (if n < 10 then [char_of (48 + n)]
      else showWhole k (n div 10) @ [char_of (48 + n mod 10)])"

definition exNumberToString :: "jsnum \<Rightarrow> string" where
  "exNumberToString n =
     (case n of
        NaN \<Rightarrow> ''NaN''
      | PosInf \<Rightarrow> ''Infinity''
      | NegInf \<Rightarrow> ''-Infinity''
      | Fin q \<Rightarrow>
          (let a = shortestDecimal 25 0 \<bar>q\<bar>;
               whole = \<lfloor>a\<rfloor>;
               fraction = a - of_int whole
           in (if q < 0 then ''-'' else []) @ showWhole 22 whole
              @ (if fraction = 0 then [] else ''.'' @ showFraction 25 fraction)))"

definition exRuntime :: "(string \<times> jsval) list \<Rightarrow> runtime" where
  "exRuntime messages =
     \<lparr> jsonParse = map_of messages, stringToNumber = exStringToNumber,
       parseFloat = exParseFloat, numberToString = exNumberToString,
       dateParse = (\<lambda>_. None) \<rparr>"

definition exConfig :: AppConfig where
  "exConfig =
     \<lparr> redisHost = ''127.0.0.1'', redisPort = 6379, redisChannel = ''ODDS_FOR_COMMUNITY'',
       redisPassword = None, signalMaxAgeMs = HARD_CODED_SIGNAL_MAX_AGE_MS,
       sharesPerTrade = Fin 10 \<rparr>"

text \<open>
  A client that reports the given balance and answers \<^verbatim>\<open>postOrder\<close> as given.
\<close>

definition exClient :: "jsval option \<Rightarrow> string + jsval option \<Rightarrow> ClobClient" where
  "exClient balance posted =
     \<lparr> getBalanceAllowance = Some (\<lambda>_. Inr balance),
       updateBalanceAllowance = Some (\<lambda>_. Inr ()),
       createOrder = (\<lambda>_. Inr ''signed''),
       postOrder = (\<lambda>_ _. posted) \<rparr>"

definition exSignal :: "SignalDirection \<Rightarrow> SignalToken \<Rightarrow> string \<Rightarrow> TradingSignal" where
  "exSignal d t slug =
     \<lparr> sig_timestampMs = Fin 1700000000000, sig_direction = d, sig_token = t,
       sig_limitPrice = fl (47 / 100), sig_marketSlug = slug, sig_raw = [] \<rparr>"














text \<open>
  Three worlds in which the new connection is number 2: its subscription is rejected,
  it resolves, and it never settles because the server cannot be reached.
\<close>

definition exWorldFailing :: RedisWorld where
  "exWorldFailing =
     \<lparr> newHandle = 2, connectEvents = [EvConnect], subscribeResult = Some (Inl ''NOAUTH''),
       statusOf = (\<lambda>_. StReady), unsubscribeResult = Some (Inr ()),
       resubscribeResult = Some (Inr ()) \<rparr>"

definition exWorldReachable :: RedisWorld where
  "exWorldReachable = exWorldFailing\<lparr>subscribeResult := Some (Inr ())\<rparr>"

definition exWorldUnreachable :: RedisWorld where
  "exWorldUnreachable =
     exWorldFailing\<lparr>connectEvents := [EvError ''ECONNREFUSED'', EvClose],
                    subscribeResult := None\<rparr>"

definition exTargetUpdate :: RedisTargetUpdate where
  "exTargetUpdate =
     \<lparr> next_host = Some ''10.0.0.7'', next_port = None, next_channel = None,
       next_password = Some ''secret'' \<rparr>"

section \<open>Properties of the trade executor\<close>

text \<open>
  C5. \<^verbatim>\<open>updateMarket\<close> binds the market it receives. When no market was bound, or
  the bound market differs from the new one in its slug, its up token or its down token,
  the ledger of both outcomes is zero afterwards. When all three are the same, the ledger
  is the one before the call.
\<close>

theorem updateMarket_ledger:
  "market (updateMarket m st) = Some m
   \<and> ((market st = None
        \<or> (\<exists>cur. market st = Some cur
              \<and> (marketSlug cur, upTokenId cur, downTokenId cur)
                  \<noteq> (marketSlug m, upTokenId m, downTokenId m)))
       \<longrightarrow> knownShares (updateMarket m st) UP = Fin 0
           \<and> knownShares (updateMarket m st) DOWN = Fin 0)
   \<and> ((\<exists>cur. market st = Some cur
              \<and> (marketSlug cur, upTokenId cur, downTokenId cur)
                  = (marketSlug m, upTokenId m, downTokenId m))
       \<longrightarrow> knownShares (updateMarket m st) = knownShares st)"
  by (auto simp: updateMarket_def Let_def split: option.splits)

theorem updateMarket_ledger_witness:
  "market exExecutorA = Some exMarketA
   \<and> (marketSlug exMarketA, upTokenId exMarketA, downTokenId exMarketA)
       \<noteq> (marketSlug exMarketB, upTokenId exMarketB, downTokenId exMarketB)
   \<and> knownShares exExecutorA DOWN = Fin 7
   \<and> knownShares (updateMarket exMarketB exExecutorA) UP = Fin 0
   \<and> knownShares (updateMarket exMarketB exExecutorA) DOWN = Fin 0
   \<and> knownShares (updateMarket (exMarketA\<lparr>marketQuestion := ''Up or down?''\<rparr>) exExecutorA)
       = knownShares exExecutorA
   \<and> market newTradeExecutor = None
   \<and> knownShares (updateMarket exMarketB newTradeExecutor) UP = Fin 0"
  using updateMarket_ledger [of exMarketB exExecutorA]
        updateMarket_ledger [of "exMarketA\<lparr>marketQuestion := ''Up or down?''\<rparr>" exExecutorA]
        updateMarket_ledger [of exMarketB newTradeExecutor]
  by (simp add: exExecutorA_def exMarketA_def exMarketB_def newTradeExecutor_def)

text \<open>
  C3. Without a bound market \<^verbatim>\<open>execute\<close> throws the no-active-market error; with
  a bound market whose slug is not the signal's it throws the mismatch error. Either way
  the executor, its ledger included, is the one before the call and no call was made on
  the client: no order was created or submitted, for the bound market or any other.
\<close>

theorem execute_preconditions:
  "(market st = None \<longrightarrow> execute rt cfg client now signal st = (Inl NoActiveMarket, st, []))
   \<and> (\<forall>m. market st = Some m \<and> sig_marketSlug signal \<noteq> marketSlug m
          \<longrightarrow> execute rt cfg client now signal st = (Inl MarketMismatch, st, []))"
  by (simp add: execute_def)

theorem execute_preconditions_witness:
  "market newTradeExecutor = None
   \<and> execute (exRuntime []) exConfig (exClient None (Inr None)) 5
        (exSignal BUY UP ''btc-updown-15m-1700000900'') newTradeExecutor
       = (Inl NoActiveMarket, newTradeExecutor, [])
   \<and> market exExecutorA = Some exMarketA
   \<and> sig_marketSlug (exSignal BUY UP ''btc-updown-15m-1700000900'') \<noteq> marketSlug exMarketA
   \<and> execute (exRuntime []) exConfig (exClient None (Inr None)) 5
        (exSignal BUY UP ''btc-updown-15m-1700000900'') exExecutorA
       = (Inl MarketMismatch, exExecutorA, [])"
  using execute_preconditions [of newTradeExecutor "exRuntime []" exConfig
          "exClient None (Inr None)" 5 "exSignal BUY UP ''btc-updown-15m-1700000900''"]
        execute_preconditions [of exExecutorA "exRuntime []" exConfig
          "exClient None (Inr None)" 5 "exSignal BUY UP ''btc-updown-15m-1700000900''"]
  by (simp add: newTradeExecutor_def exExecutorA_def exMarketA_def exSignal_def)

subsection \<open>Sizing\<close>

lemma fetchBalance_calls:
  "fetchBalance rt getB tok tokenId st calls = (b, st1, calls1)
   \<Longrightarrow> \<forall>c \<in> set calls. \<not> isOrderCall c \<Longrightarrow> \<forall>c \<in> set calls1. \<not> isOrderCall c"
  by (auto simp: fetchBalance_def Let_def split: sum.splits)

lemma syncConditionalBalance_calls:
  "syncConditionalBalance rt client tok tokenId st = (b, st1, calls)
   \<Longrightarrow> \<forall>c \<in> set calls. \<not> isOrderCall c"
  by (auto simp: syncConditionalBalance_def split: option.splits sum.splits
           dest!: fetchBalance_calls)

lemma computeOrderSize_calls:
  assumes "computeOrderSize rt cfg client signal tokenId st = (sz, st1, calls)"
  shows "\<forall>c \<in> set calls. \<not> isOrderCall c"
proof (cases "sig_direction signal = BUY")
  case True
  with assms show ?thesis by (simp add: computeOrderSize_def)
next
  case False
  obtain b s c where y: "syncConditionalBalance rt client (sig_token signal) tokenId st = (b, s, c)"
    by (cases "syncConditionalBalance rt client (sig_token signal) tokenId st") auto
  with assms False have "calls = c" by (simp add: computeOrderSize_def Let_def)
  with syncConditionalBalance_calls [OF y] show ?thesis by simp
qed

text \<open>
  A size that is not positive is skipped: \<^verbatim>\<open>execute\<close> returns normally, having
  recorded the skip in the trade summary, and the only client calls made are those of
  the balance refresh.
\<close>

lemma skip_without_order:
  assumes "market st = Some m"
    and "sig_marketSlug signal = marketSlug m"
    and "computeOrderSize rt cfg client signal
           (if sig_token signal = UP then upTokenId m else downTokenId m) st = (sz, st1, calls)"
    and "jsLessEq sz (Fin 0)"
  shows "execute rt cfg client now signal st
           = (Inr (),
              st1\<lparr>lastTradeAtMs := Some now, lastTradeSummary := skippedSummary rt signal\<rparr>,
              calls)
         \<and> (\<forall>c \<in> set calls. \<not> isOrderCall c)"
  using assms computeOrderSize_calls [OF assms(3)]
  by (simp add: execute_def mapTokenToId_def Let_def)

text \<open>The two examples of the specification: a balance of 3.2 sells 2.7, one of 0.3 is skipped.\<close>

lemma sell_size_32:
  "fst (computeOrderSize (exRuntime []) exConfig (exClient (Some (JStr ''3.2'')) (Inr None))
          (exSignal SELL UP ''btc-updown-15m-1700000000'') ''1001'' exExecutorA) = fl (27 / 10)"
  by code_simp

lemma sell_size_03:
  "fst (computeOrderSize (exRuntime []) exConfig (exClient (Some (JStr ''0.3'')) (Inr None))
          (exSignal SELL UP ''btc-updown-15m-1700000000'') ''1001'' exExecutorA) = fl (- 2 / 10)"
  by code_simp

lemma sell_skip_03:
  "lastTradeSummary (fst (snd (execute (exRuntime []) exConfig
          (exClient (Some (JStr ''0.3'')) (Inr None)) 5
          (exSignal SELL UP ''btc-updown-15m-1700000000'') exExecutorA)))
     = ''SKIPPED SELL UP (insufficient shares after -0.5 buffer)''"
  by code_simp

lemma sell_size_06_spec: "specSellSize 10 (6 / 10) = 1 / 10"
  by code_simp

lemma sell_size_06_parsed:
  "parseMaybeFixed6 (exRuntime []) (Some (JStr ''0.6'')) = fl (6 / 10)"
  by code_simp

lemma sell_size_06_micro:
  "parseMaybeFixed6 (exRuntime []) (Some (JStr ''600000'')) = fl (6 / 10)"
  by code_simp

lemma sell_size_06_below:
  "jsLess (jsSub (fl (6 / 10)) (fl (5 / 10))) (fl (1 / 10))"
  by code_simp

lemma sell_size_06_product:
  "jsLess (jsMul (jsSub (fl (6 / 10)) (fl (5 / 10))) (Fin 10)) (Fin 1)"
  by code_simp

lemma sell_size_06_size:
  "fst (computeOrderSize (exRuntime []) exConfig (exClient (Some (JStr ''0.6'')) (Inr None))
          (exSignal SELL UP ''btc-updown-15m-1700000000'') ''1001'' exExecutorA) = Fin 0"
  by code_simp

lemma sell_size_06_outcome:
  "fst (execute (exRuntime []) exConfig (exClient (Some (JStr ''0.6'')) (Inr None)) 5
          (exSignal SELL UP ''btc-updown-15m-1700000000'') exExecutorA) = Inr ()"
  by code_simp

lemma sell_size_06_summary:
  "lastTradeSummary (fst (snd (execute (exRuntime []) exConfig
          (exClient (Some (JStr ''0.6'')) (Inr None)) 5
          (exSignal SELL UP ''btc-updown-15m-1700000000'') exExecutorA)))
     = ''SKIPPED SELL UP (insufficient shares after -0.5 buffer)''"
  by code_simp

lemma sell_size_06_calls:
  "snd (snd (execute (exRuntime []) exConfig (exClient (Some (JStr ''0.6'')) (Inr None)) 5
          (exSignal SELL UP ''btc-updown-15m-1700000000'') exExecutorA))
     = [UpdateBalanceAllowance ''1001'', GetBalanceAllowance ''1001'']"
  by code_simp

text \<open>
  C1. The SELL size is the specification's formula evaluated in binary64 arithmetic, and
  that falls a tenth short of the formula at some balances. With 10 shares per trade and
  a reported balance of 0.6 (as the text \<^verbatim>\<open>0.6\<close> or as 600000 micro-shares) the
  formula gives 0.1. The program reads the balance as the binary64 value nearest to
  0.6, which is below 0.6; the difference to 0.5 is below 0.1, its product with 10 is
  below 1 and is floored to 0. The size is 0 and \<^verbatim>\<open>execute\<close> skips the signal:
  it returns normally with the summary of a skip, having made the two calls of the
  balance refresh and no other.
\<close>

theorem sell_size_balance_06:
  "specSellSize 10 (6 / 10) = 1 / 10
   \<and> sharesPerTrade exConfig = Fin 10
   \<and> parseMaybeFixed6 (exRuntime []) (Some (JStr ''0.6'')) = fl (6 / 10)
   \<and> parseMaybeFixed6 (exRuntime []) (Some (JStr ''600000'')) = fl (6 / 10)
   \<and> jsLess (jsSub (fl (6 / 10)) (fl (5 / 10))) (fl (1 / 10))
   \<and> jsLess (jsMul (jsSub (fl (6 / 10)) (fl (5 / 10))) (Fin 10)) (Fin 1)
   \<and> fst (computeOrderSize (exRuntime []) exConfig (exClient (Some (JStr ''0.6'')) (Inr None))
            (exSignal SELL UP ''btc-updown-15m-1700000000'') ''1001'' exExecutorA) = Fin 0
   \<and> fst (execute (exRuntime []) exConfig (exClient (Some (JStr ''0.6'')) (Inr None)) 5
            (exSignal SELL UP ''btc-updown-15m-1700000000'') exExecutorA) = Inr ()
   \<and> lastTradeSummary (fst (snd (execute (exRuntime []) exConfig
            (exClient (Some (JStr ''0.6'')) (Inr None)) 5
            (exSignal SELL UP ''btc-updown-15m-1700000000'') exExecutorA)))
       = ''SKIPPED SELL UP (insufficient shares after -0.5 buffer)''
   \<and> snd (snd (execute (exRuntime []) exConfig (exClient (Some (JStr ''0.6'')) (Inr None)) 5
            (exSignal SELL UP ''btc-updown-15m-1700000000'') exExecutorA))
       = [UpdateBalanceAllowance ''1001'', GetBalanceAllowance ''1001'']"
  by (intro conjI sell_size_06_spec sell_size_06_parsed sell_size_06_micro sell_size_06_below
        sell_size_06_product sell_size_06_size sell_size_06_outcome sell_size_06_summary
        sell_size_06_calls) (simp add: exConfig_def)

section \<open>Properties of the signal subscriber\<close>

subsection \<open>Stale signals\<close>















end
